theory Spec2Isabelle
  imports Complex_Main "HOL-Library.Word" "HOL-Library.Multiset" "HOL-Library.AList"
begin

section \<open>Shared data model\<close>

text \<open>
  Modelled from the spec: the declaration of \<open>Config\<close> is not part of the sources at hand.
  The code reads \<open>conf.Cluster[i].Name\<close>, \<open>.Address\<close> and \<open>.ProtocolVersion\<close>; the
  specification describes a cluster as name, network address and protocol version, and the
  configuration as the ordered list of these records.
\<close>

record ClusterConfig =
  Name :: string
  Address :: string
  ProtocolVersion :: string

record Config =
  Cluster :: "ClusterConfig list"

text \<open>A Go panic, with the message it carries.\<close>

datatype panic = Panic string

text \<open>
  Goroutines started in a loop and joined with a \<open>sync.WaitGroup\<close>. Every goroutine body
  of the program touches the shared value in one indivisible step (a write to its own slot, or
  an append under the mutex), so a run is the order in which the bodies take effect. The
  scheduler is an oracle \<open>sched\<close>: each entry picks one of the goroutines that are still
  pending; when the oracle is exhausted the rest run in the order they were started.
  \<open>Wait()\<close> returns once none is pending.
\<close>

function go_wait :: "nat list \<Rightarrow> ('s \<Rightarrow> 's) list \<Rightarrow> 's \<Rightarrow> 's" where
  "go_wait sched [] s = s"
| "go_wait [] (g # gs) s = go_wait [] gs (g s)"
| "go_wait (k # sched) (g # gs) s =
     (let i = k mod length (g # gs)
      in go_wait sched (take i (g # gs) @ drop (Suc i) (g # gs)) (((g # gs) ! i) s))"
  by pat_completeness auto
termination
  by (relation "measure (\<lambda>(sched, gs, s). length gs)") auto


section \<open>cmd/uc/scheduler.go\<close>

text \<open>
  \<open>float64\<close> values are modelled by the real numbers they denote, and \<open>int64\<close> by 64-bit
  words read in two's complement. A float64 operation yields the exact result rounded to a
  float64; the rounding is the parameter \<open>rnd\<close> of the functions that compute with floats,
  and what is proved of them holds for every rounding. Every concrete load below on which the
  code computes is a dyadic rational on which its operations are exact, so that the rounding is
  the identity there. Comparisons of float64 numbers are exact. Infinities and NaN are not
  modelled.
\<close>

type_synonym float64 = real
type_synonym int64 = "64 word"

text \<open>\<open>math.MaxFloat64\<close>, that is \<open>0x1p1023 * (1 + (1 - 0x1p-52))\<close>.\<close>

definition MaxFloat64 :: float64 where
  "MaxFloat64 = (2 ^ 53 - 1) * 2 ^ 971"

text \<open>
  The conversion \<open>int64(f)\<close> discards the fraction (truncation towards zero). When the
  truncated value does not fit into an \<open>int64\<close>, Go leaves the result to the implementation:
  it is the parameter \<open>oor\<close>, a function of the float, and what is proved holds for every
  such function.
\<close>

definition int64_of_float :: "(float64 \<Rightarrow> int64) \<Rightarrow> float64 \<Rightarrow> int64" where
  "int64_of_float oor f =
     (let t = (if 0 \<le> f then \<lfloor>f\<rfloor> else \<lceil>f\<rceil>)
      in if - (2 ^ 63) \<le> t \<and> t < 2 ^ 63 then word_of_int t else oor f)"

text \<open>
  \<open>rand.Int63n(n)\<close> panics if \<open>n <= 0\<close> and otherwise returns a number in \<open>[0, n)\<close>. The
  generator's state is the parameter \<open>r\<close>; every number of the interval is returned for
  some \<open>r\<close>.
\<close>

definition Int63n :: "nat \<Rightarrow> int64 \<Rightarrow> panic + int64" where
  "Int63n r n =
     (if sint n \<le> 0 then Inl (Panic ''invalid argument to Int63n'')
      else Inr (word_of_int (int r mod sint n)))"

text \<open>The first loop of \<open>probabilisticSelection\<close>, writing the slice \<open>likelyhood\<close> slot by slot.\<close>

fun likelyhood_loop ::
  "(real \<Rightarrow> float64) \<Rightarrow> (float64 \<Rightarrow> int64) \<Rightarrow> nat \<Rightarrow> float64 list \<Rightarrow> int64 list \<Rightarrow>
   int64 list" where
  "likelyhood_loop rnd oor k [] likelyhood = likelyhood"
| "likelyhood_loop rnd oor k (v # vs) likelyhood =
     likelyhood_loop rnd oor (Suc k) vs
       (if k \<ge> 1
        then likelyhood[k := likelyhood ! (k - 1) +
                             int64_of_float oor (rnd (rnd (1.0 - v) * 10000))]
        else likelyhood[k := int64_of_float oor (rnd (rnd (1.0 - v) * 10000))])"

definition likelyhood_of ::
  "(real \<Rightarrow> float64) \<Rightarrow> (float64 \<Rightarrow> int64) \<Rightarrow> float64 list \<Rightarrow> int64 list" where
  "likelyhood_of rnd oor loads = likelyhood_loop rnd oor 0 loads (replicate (length loads) 0)"

text \<open>The second loop: the first index whose entry is greater than the draw, else \<open>-1\<close>.\<close>

fun select_loop :: "nat \<Rightarrow> int64 list \<Rightarrow> int64 \<Rightarrow> int" where
  "select_loop k [] selection = -1"
| "select_loop k (v # vs) selection =
     (if sint v > sint selection then int k else select_loop (Suc k) vs selection)"

definition probabilisticSelection ::
  "(real \<Rightarrow> float64) \<Rightarrow> (float64 \<Rightarrow> int64) \<Rightarrow> nat \<Rightarrow> float64 list \<Rightarrow> panic + int" where
  "probabilisticSelection rnd oor r loads =
     (if length loads \<le> 0 then Inr (-1)
      else
        let likelyhood = likelyhood_of rnd oor loads in
        if sint (likelyhood ! (length loads - 1)) \<le> 0 then Inr (-1)
        else
          (case Int63n r (likelyhood ! (length loads - 1) - 1) of
             Inl p \<Rightarrow> Inl p
           | Inr selection \<Rightarrow> Inr (select_loop 0 likelyhood selection)))"

text \<open>
  What one load request can bring back: \<open>UberGet\<close> fails; or it succeeds and the body decodes
  to a float; or it succeeds and \<open>Decode\<close> returns an error, leaving some value in the
  variable \<open>load\<close> (with \<open>encoding/json\<close> that is the zero the variable was declared with).
  The HTTP client is the function from the request string to this reply.
\<close>

datatype load_reply = GetFailed | Decoded float64 | DecodeFailed float64

type_synonym load_client = "string \<Rightarrow> load_reply"

text \<open>
  \<open>getClusterLoad\<close>; the state is the slice \<open>lv.load\<close>. The assignment stands in the branch
  \<open>err != nil\<close> of \<open>Decode\<close>; the branch of a successful decode only logs.
\<close>

definition getClusterLoad :: "float64 list \<Rightarrow> nat \<Rightarrow> string \<Rightarrow> load_client \<Rightarrow> float64 list" where
  "getClusterLoad lv index request client =
     (case client request of
        GetFailed \<Rightarrow> lv
      | DecodeFailed load \<Rightarrow> lv[index := load]
      | Decoded load \<Rightarrow> lv)"

definition load_request :: "ClusterConfig \<Rightarrow> string" where
  "load_request c = Address c @ ''/'' @ ProtocolVersion c @ ''/drmsload''"

definition getAllLoadValues :: "Config \<Rightarrow> load_client \<Rightarrow> nat list \<Rightarrow> float64 list" where
  "getAllLoadValues conf client sched =
     go_wait sched
       (map (\<lambda>i lv. getClusterLoad lv i (load_request (Cluster conf ! i)) client)
            [0 ..< length (Cluster conf)])
       (replicate (length (Cluster conf)) 0)"

text \<open>Indexing \<open>conf.Cluster[i]\<close> with a Go \<open>int\<close>: out of range is a run-time panic.\<close>

definition cluster_at :: "Config \<Rightarrow> int \<Rightarrow> panic + ClusterConfig" where
  "cluster_at conf i =
     (if 0 \<le> i \<and> i < int (length (Cluster conf)) then Inr (Cluster conf ! nat i)
      else Inl (Panic ''index out of range''))"

definition ProbSched_SelectCluster ::
  "(real \<Rightarrow> float64) \<Rightarrow> (float64 \<Rightarrow> int64) \<Rightarrow> Config \<Rightarrow> load_client \<Rightarrow> nat list \<Rightarrow> nat \<Rightarrow>
   panic + string" where
  "ProbSched_SelectCluster rnd oor conf client sched r =
     (case probabilisticSelection rnd oor r (getAllLoadValues conf client sched) of
        Inl p \<Rightarrow> Inl p
      | Inr selection \<Rightarrow>
          if selection \<ge> 0
          then (case cluster_at conf selection of Inl p \<Rightarrow> Inl p | Inr c \<Rightarrow> Inr (Name c))
          else Inr ''default'')"

fun minLoad_loop :: "nat \<Rightarrow> float64 list \<Rightarrow> float64 \<Rightarrow> nat \<Rightarrow> nat" where
  "minLoad_loop k [] mn index = index"
| "minLoad_loop k (v # vs) mn index =
     (if v < mn then minLoad_loop (Suc k) vs v k else minLoad_loop (Suc k) vs mn index)"

definition minLoad :: "float64 list \<Rightarrow> nat" where
  "minLoad load = minLoad_loop 0 load MaxFloat64 0"

definition LoadBasedSched_SelectCluster :: "Config \<Rightarrow> load_client \<Rightarrow> nat list \<Rightarrow> panic + string" where
  "LoadBasedSched_SelectCluster conf client sched =
     (let load = getAllLoadValues conf client sched
      in case cluster_at conf (int (minLoad load)) of Inl p \<Rightarrow> Inl p | Inr c \<Rightarrow> Inr (Name c))"


section \<open>The aggregator (\<open>Inception\<close>)\<close>

text \<open>A Go \<open>error\<close> value with its message.\<close>

datatype error = Error string

text \<open>
  The type \<open>Request\<close>, its constructor \<open>NewRequest\<close> and its methods are not part of the
  sources at hand; they are the client side of the HTTP contract between brokers, and they are
  parameters here. The aggregator calls \<open>GetJobs(address, state, user)\<close>, which returns a
  slice (\<open>None\<close> is the nil slice), \<open>GetJob(request, jobid)\<close>, \<open>GetMachines(address, name)\<close>
  and \<open>GetQueues(address, name)\<close>, which return a value or an error, and
  \<open>GetJobCategories(address, session, category)\<close>, which returns a slice. Each method is the
  function from its arguments to what the peer answers. The element types (job info, machine,
  queue) are type parameters.
\<close>

record ('ji, 'm, 'q) Request =
  GetJobs :: "string \<Rightarrow> string \<Rightarrow> string \<Rightarrow> 'ji list option"
  GetJob :: "string \<Rightarrow> string \<Rightarrow> error + 'ji"
  GetMachines :: "string \<Rightarrow> string \<Rightarrow> error + 'm list"
  GetQueues :: "string \<Rightarrow> string \<Rightarrow> error + 'q list"
  GetJobCategories :: "string \<Rightarrow> string \<Rightarrow> string \<Rightarrow> string list"

text \<open>The requests a call sends to peers, in the order they take effect.\<close>

datatype call =
    CallGetJobs string string string
  | CallGetJob string string
  | CallGetMachines string string
  | CallGetQueues string string
  | CallGetJobCategories string string string

record ('ji, 'm, 'q) Inception =
  inceptionAddress :: string
  config :: Config
  request :: "('ji, 'm, 'q) Request"

text \<open>
  \<open>NewInception\<close> sets \<open>config\<close> and \<open>request\<close>; the field \<open>inceptionAddress\<close> keeps the zero
  value of a Go string. \<open>NewRequest\<close> is a parameter.
\<close>

definition NewInception ::
  "(string \<Rightarrow> string \<Rightarrow> string \<Rightarrow> ('ji, 'm, 'q) Request) \<Rightarrow>
   string \<Rightarrow> string \<Rightarrow> string \<Rightarrow> Config \<Rightarrow> ('ji, 'm, 'q) Inception" where
  "NewInception NewRequest certFile keyFile otp conf =
     \<lparr>inceptionAddress = '''', config = conf, request = NewRequest certFile keyFile otp\<rparr>"

text \<open>
  \<open>inceptionMode\<close> builds the aggregator from the global configuration and hands it to
  \<open>proxy.ProxyListenAndServe\<close> together with the listen address; the result here is that pair.
\<close>

definition inceptionMode ::
  "(string \<Rightarrow> string \<Rightarrow> string \<Rightarrow> ('ji, 'm, 'q) Request) \<Rightarrow> Config \<Rightarrow>
   string \<Rightarrow> string \<Rightarrow> string \<Rightarrow> string \<Rightarrow> string \<times> ('ji, 'm, 'q) Inception" where
  "inceptionMode NewRequest conf certFile keyFile otp address =
     (let incept = NewInception NewRequest certFile keyFile otp conf
      in (address, incept))"

text \<open>
  \<open>requestJobInfos\<close>, one goroutine of the fan-out. The shared value is the pair of the calls
  sent so far and \<open>ji.jobinfos\<close>.
\<close>

definition requestJobInfos ::
  "('ji, 'm, 'q) Inception \<Rightarrow> call list \<times> 'ji list \<Rightarrow> string \<Rightarrow> string \<Rightarrow> call list \<times> 'ji list" where
  "requestJobInfos i ji state address =
     (let jis = GetJobs (request i) address state ''''
      in (fst ji @ [CallGetJobs address state ''''],
          case jis of None \<Rightarrow> snd ji | Some js \<Rightarrow> snd ji @ js))"

text \<open>The loop of \<open>GetJobInfosByFilter\<close>: the goroutines it starts, own address skipped.\<close>

fun GetJobInfosByFilter_loop ::
  "('ji, 'm, 'q) Inception \<Rightarrow> ClusterConfig list \<Rightarrow> (call list \<times> 'ji list \<Rightarrow> call list \<times> 'ji list) list" where
  "GetJobInfosByFilter_loop i [] = []"
| "GetJobInfosByFilter_loop i (c # cs) =
     (if Address c @ ''/'' = inceptionAddress i then GetJobInfosByFilter_loop i cs
      else (\<lambda>jip. requestJobInfos i jip ''all'' (Address c @ ''/v1''))
           # GetJobInfosByFilter_loop i cs)"

definition GetJobInfosByFilter ::
  "('ji, 'm, 'q) Inception \<Rightarrow> nat list \<Rightarrow> bool \<Rightarrow> 'ji \<Rightarrow> call list \<times> 'ji list" where
  "GetJobInfosByFilter i sched filtered filter' =
     go_wait sched (GetJobInfosByFilter_loop i (Cluster (config i))) ([], [])"

text \<open>The lookup loop of \<open>getJobFromCluster\<close>: the first cluster of that name ends it.\<close>

fun getJobFromCluster_loop :: "ClusterConfig list \<Rightarrow> string \<Rightarrow> string \<times> string \<Rightarrow> string \<times> string" where
  "getJobFromCluster_loop [] clustername av = av"
| "getJobFromCluster_loop (c # cs) clustername av =
     (if Name c = clustername then (Address c, ProtocolVersion c)
      else getJobFromCluster_loop cs clustername av)"

definition getJobFromCluster ::
  "('ji, 'm, 'q) Inception \<Rightarrow> string \<Rightarrow> string \<Rightarrow> call list \<times> 'ji option \<times> error option" where
  "getJobFromCluster i clustername jobid =
     (let (address, version) = getJobFromCluster_loop (Cluster (config i)) clustername ('''', ''v1'')
      in if address \<noteq> ''''
         then (let req = address @ version
               in case GetJob (request i) req jobid of
                    Inr job \<Rightarrow> ([CallGetJob req jobid], Some job, None)
                  | Inl err \<Rightarrow> ([CallGetJob req jobid], None, Some err))
         else ([], None, Some (Error (''Couldn't find clustername in config: '' @ clustername))))"

text \<open>\<open>strings.Contains\<close> and \<open>strings.Split\<close> for a separator of one byte.\<close>

definition Contains :: "string \<Rightarrow> char \<Rightarrow> bool" where
  "Contains s sep = (sep \<in> set s)"

fun Split :: "string \<Rightarrow> char \<Rightarrow> string list" where
  "Split [] sep = [[]]"
| "Split (c # cs) sep =
     (if c = sep then [] # Split cs sep
      else (case Split cs sep of w # ws \<Rightarrow> (c # w) # ws | [] \<Rightarrow> [[c]]))"

text \<open>
  \<open>GetJobInfo\<close> returns a pointer only: \<open>None\<close> is nil. The error of \<open>getJobFromCluster\<close>
  is dropped, and the branch for a wrong identifier writes to the log and returns nil.
\<close>

definition GetJobInfo :: "('ji, 'm, 'q) Inception \<Rightarrow> string \<Rightarrow> call list \<times> 'ji option" where
  "GetJobInfo i jobid =
     (if Contains jobid CHR ''@'' then
        (let jobAtCluster = Split jobid CHR ''@''
         in if length jobAtCluster = 2
            then (case getJobFromCluster i (jobAtCluster ! 1) (jobAtCluster ! 0) of
                    (calls, job, _) \<Rightarrow> (calls, job))
            else ([], None))
      else (case getJobFromCluster i ''default'' jobid of (calls, job, _) \<Rightarrow> (calls, job)))"

text \<open>
  \<open>GetAllMachines\<close>, \<open>GetAllQueues\<close> and \<open>GetAllCategories\<close> run their requests one after
  the other. \<open>GetClusterAddress\<close> is not part of the sources at hand and is a parameter: from a
  cluster name to an address or an error (its second result is not used). When it fails the
  code calls \<open>log.Panicln\<close>, which panics with the text of the error and a line feed.
\<close>

type_synonym cluster_address = "string \<Rightarrow> error + string"

fun Panicln :: "error \<Rightarrow> panic" where
  "Panicln (Error msg) = Panic (msg @ [CHR 0x0A])"

fun GetAllMachines_loop ::
  "('ji, 'm, 'q) Inception \<Rightarrow> cluster_address \<Rightarrow> ClusterConfig list \<Rightarrow> call list \<times> 'm list \<Rightarrow>
   call list \<times> (panic + 'm list \<times> error option)" where
  "GetAllMachines_loop i GetClusterAddress [] (calls, allmachines) = (calls, Inr (allmachines, None))"
| "GetAllMachines_loop i GetClusterAddress (c # cs) (calls, allmachines) =
     (if Address c @ ''/'' = inceptionAddress i
      then GetAllMachines_loop i GetClusterAddress cs (calls, allmachines)
      else (case GetClusterAddress (Name c) of
              Inl err \<Rightarrow> (calls, Inl (Panicln err))
            | Inr address \<Rightarrow>
                (case GetMachines (request i) address ''all'' of
                   Inr ms \<Rightarrow> GetAllMachines_loop i GetClusterAddress cs
                              (calls @ [CallGetMachines address ''all''], allmachines @ ms)
                 | Inl err \<Rightarrow> GetAllMachines_loop i GetClusterAddress cs
                              (calls @ [CallGetMachines address ''all''], allmachines))))"

definition GetAllMachines ::
  "('ji, 'm, 'q) Inception \<Rightarrow> cluster_address \<Rightarrow> string list \<Rightarrow>
   call list \<times> (panic + 'm list \<times> error option)" where
  "GetAllMachines i GetClusterAddress machines =
     GetAllMachines_loop i GetClusterAddress (Cluster (config i)) ([], [])"

fun GetAllQueues_loop ::
  "('ji, 'm, 'q) Inception \<Rightarrow> cluster_address \<Rightarrow> ClusterConfig list \<Rightarrow> call list \<times> 'q list \<Rightarrow>
   call list \<times> (panic + 'q list \<times> error option)" where
  "GetAllQueues_loop i GetClusterAddress [] (calls, allqueues) = (calls, Inr (allqueues, None))"
| "GetAllQueues_loop i GetClusterAddress (c # cs) (calls, allqueues) =
     (if Address c @ ''/'' = inceptionAddress i
      then GetAllQueues_loop i GetClusterAddress cs (calls, allqueues)
      else (case GetClusterAddress (Name c) of
              Inl err \<Rightarrow> (calls, Inl (Panicln err))
            | Inr address \<Rightarrow>
                (case GetQueues (request i) address ''all'' of
                   Inr qs \<Rightarrow> GetAllQueues_loop i GetClusterAddress cs
                              (calls @ [CallGetQueues address ''all''], allqueues @ qs)
                 | Inl err \<Rightarrow> GetAllQueues_loop i GetClusterAddress cs
                              (calls @ [CallGetQueues address ''all''], allqueues))))"

definition GetAllQueues ::
  "('ji, 'm, 'q) Inception \<Rightarrow> cluster_address \<Rightarrow> string list \<Rightarrow>
   call list \<times> (panic + 'q list \<times> error option)" where
  "GetAllQueues i GetClusterAddress queues =
     GetAllQueues_loop i GetClusterAddress (Cluster (config i)) ([], [])"

fun GetAllCategories_loop ::
  "('ji, 'm, 'q) Inception \<Rightarrow> cluster_address \<Rightarrow> ClusterConfig list \<Rightarrow> call list \<times> string list \<Rightarrow>
   call list \<times> (panic + string list \<times> error option)" where
  "GetAllCategories_loop i GetClusterAddress [] (calls, cat) = (calls, Inr (cat, None))"
| "GetAllCategories_loop i GetClusterAddress (c # cs) (calls, cat) =
     (if Address c @ ''/'' = inceptionAddress i
      then GetAllCategories_loop i GetClusterAddress cs (calls, cat)
      else (case GetClusterAddress (Name c) of
              Inl err \<Rightarrow> (calls, Inl (Panicln err))
            | Inr address \<Rightarrow>
                GetAllCategories_loop i GetClusterAddress cs
                  (calls @ [CallGetJobCategories address ''ubercluster'' ''all''],
                   cat @ GetJobCategories (request i) address ''ubercluster'' ''all'')))"

definition GetAllCategories ::
  "('ji, 'm, 'q) Inception \<Rightarrow> cluster_address \<Rightarrow> call list \<times> (panic + string list \<times> error option)" where
  "GetAllCategories i GetClusterAddress =
     GetAllCategories_loop i GetClusterAddress (Cluster (config i)) ([], [])"

text \<open>
  Modelled from the spec: the declaration of the job template is not part of the sources at
  hand. These are the fields the code reads: the command and its arguments, the three
  redirection paths and the environment overlay (a map from key to value, here the list of
  its entries).
\<close>

record JobTemplate =
  RemoteCommand :: string
  Args :: "string list"
  InputPath :: string
  OutputPath :: string
  ErrorPath :: string
  JobEnvironment :: "(string \<times> string) list"

text \<open>The two targeted operations of the aggregator; the result is the pair the Go function returns.\<close>

definition RunJob :: "('ji, 'm, 'q) Inception \<Rightarrow> JobTemplate \<Rightarrow> string \<times> error option" where
  "RunJob i template = ('''', None)"

definition JobOperation ::
  "('ji, 'm, 'q) Inception \<Rightarrow> string \<Rightarrow> string \<Rightarrow> string \<Rightarrow> string \<times> error option" where
  "JobOperation i jobsessionname operation jobid = ('''', None)"


section \<open>simpletracker/os.go\<close>

text \<open>
  The environment of the running process, as package \<open>os\<close> presents it: \<open>Environ\<close> lists
  the entries in the form \<open>key=value\<close>, \<open>Getenv\<close> returns the empty string for a key that
  is not set, \<open>Setenv\<close> refuses (with an error the callers here ignore) an empty key, a key
  that contains \<open>=\<close> or a zero byte and a value that contains a zero byte, and \<open>Unsetenv\<close>
  removes a key.
\<close>

type_synonym environment = "(string \<times> string) list"

definition Environ :: "environment \<Rightarrow> string list" where
  "Environ penv = map (\<lambda>(k, v). k @ ''='' @ v) penv"

definition Getenv :: "environment \<Rightarrow> string \<Rightarrow> string" where
  "Getenv penv key = (case map_of penv key of None \<Rightarrow> '''' | Some v \<Rightarrow> v)"

definition Setenv :: "environment \<Rightarrow> string \<Rightarrow> string \<Rightarrow> environment" where
  "Setenv penv key val =
     (if key = [] \<or> CHR ''='' \<in> set key \<or> CHR 0x00 \<in> set key \<or> CHR 0x00 \<in> set val then penv
      else AList.update key val penv)"

definition Unsetenv :: "environment \<Rightarrow> string \<Rightarrow> environment" where
  "Unsetenv penv key = AList.delete key penv"

text \<open>\<open>currentEnv\<close> keys its map by the entries of \<open>os.Environ()\<close> themselves.\<close>

definition currentEnv :: "environment \<Rightarrow> (string \<times> string) list" where
  "currentEnv penv = map (\<lambda>e. (e, Getenv penv e)) (Environ penv)"

definition restoreEnv :: "environment \<Rightarrow> (string \<times> string) list \<Rightarrow> environment" where
  "restoreEnv penv saved =
     fold (\<lambda>(key, val) p. Setenv p key val) saved
       (fold (\<lambda>e p. Unsetenv p e) (Environ penv) penv)"

text \<open>
  Calls of \<open>StartProcess\<close> run concurrently, so the function is modelled by the steps of one
  call, interleaved by a schedule. A call is at one of these points: before the validation of
  the template, at the declaration \<open>var mtx sync.Mutex\<close>, at \<open>mtx.Lock()\<close>, at
  \<open>env := currentEnv()\<close>, at the loop of \<open>os.Setenv\<close>, at \<open>cmd.Start()\<close>, at
  \<open>restoreEnv(env)\<close>, at the last \<open>mtx.Unlock()\<close>, or it has returned. The redirection of
  the standard streams and \<open>go TrackProcess\<close> touch neither the environment nor a mutex and
  are left out. After a successful \<open>cmd.Start()\<close> the field \<open>cmd.Process\<close> is set, so the
  call returns the pid of the child.
\<close>

datatype point =
  AtValidate | AtVarMtx | AtLock | AtCurrentEnv | AtSetenv | AtStart | AtRestoreEnv | AtUnlock | Returned

record frame =
  fr_point :: point
  fr_jobid :: string
  fr_t :: JobTemplate
  fr_mtx :: nat
  fr_env :: "(string \<times> string) list"
  fr_pid :: int
  fr_result :: "(int \<times> error option) option"

text \<open>
  The process: its environment, the mutexes declared so far (\<open>True\<close> is locked), the children
  started so far (job id and the environment the child inherited; the pid is the position in
  this list, counted from 1) and the calls of \<open>StartProcess\<close>.
\<close>

record process =
  environ :: environment
  mutexes :: "bool list"
  children :: "(string \<times> environment) list"
  frames :: "frame list"

text \<open>
  One step of call \<open>n\<close>. \<open>validateJobTemplate\<close> is not part of the sources at hand and is a
  parameter, as is the outcome of \<open>cmd.Start()\<close>. A call at \<open>mtx.Lock()\<close> whose mutex is
  locked does not move.
\<close>

definition step ::
  "(JobTemplate \<Rightarrow> bool \<times> error) \<Rightarrow> (JobTemplate \<Rightarrow> error option) \<Rightarrow> nat \<Rightarrow> process \<Rightarrow> process" where
  "step validateJobTemplate Start n p =
     (if n \<ge> length (frames p) then p
      else
        let f = frames p ! n;
            put = (\<lambda>f' p'. p'\<lparr>frames := (frames p')[n := f']\<rparr>)
        in case fr_point f of
             AtValidate \<Rightarrow>
               (case validateJobTemplate (fr_t f) of (valid, err) \<Rightarrow>
                  if valid = False
                  then put (f\<lparr>fr_point := Returned, fr_result := Some (0, Some err)\<rparr>) p
                  else put (f\<lparr>fr_point := AtVarMtx\<rparr>) p)
           | AtVarMtx \<Rightarrow>
               put (f\<lparr>fr_point := AtLock, fr_mtx := length (mutexes p)\<rparr>)
                   (p\<lparr>mutexes := mutexes p @ [False]\<rparr>)
           | AtLock \<Rightarrow>
               (if mutexes p ! fr_mtx f then p
                else put (f\<lparr>fr_point := AtCurrentEnv\<rparr>)
                         (p\<lparr>mutexes := (mutexes p)[fr_mtx f := True]\<rparr>))
           | AtCurrentEnv \<Rightarrow>
               put (f\<lparr>fr_point := AtSetenv, fr_env := currentEnv (environ p)\<rparr>) p
           | AtSetenv \<Rightarrow>
               put (f\<lparr>fr_point := AtStart\<rparr>)
                   (p\<lparr>environ := fold (\<lambda>(key, val) e. Setenv e key val)
                                      (JobEnvironment (fr_t f)) (environ p)\<rparr>)
           | AtStart \<Rightarrow>
               (case Start (fr_t f) of
                  Some err \<Rightarrow>
                    put (f\<lparr>fr_point := Returned, fr_result := Some (0, Some err)\<rparr>)
                        (p\<lparr>mutexes := (mutexes p)[fr_mtx f := False]\<rparr>)
                | None \<Rightarrow>
                    put (f\<lparr>fr_point := AtRestoreEnv, fr_pid := int (length (children p)) + 1\<rparr>)
                        (p\<lparr>children := children p @ [(fr_jobid f, environ p)]\<rparr>))
           | AtRestoreEnv \<Rightarrow>
               put (f\<lparr>fr_point := AtUnlock\<rparr>)
                   (p\<lparr>environ := restoreEnv (environ p) (fr_env f)\<rparr>)
           | AtUnlock \<Rightarrow>
               put (f\<lparr>fr_point := Returned, fr_result := Some (fr_pid f, None)\<rparr>)
                   (p\<lparr>mutexes := (mutexes p)[fr_mtx f := False]\<rparr>)
           | Returned \<Rightarrow> p)"

definition run ::
  "(JobTemplate \<Rightarrow> bool \<times> error) \<Rightarrow> (JobTemplate \<Rightarrow> error option) \<Rightarrow> nat list \<Rightarrow> process \<Rightarrow> process" where
  "run validateJobTemplate Start sched p = fold (step validateJobTemplate Start) sched p"

text \<open>A new call of \<open>StartProcess\<close>, about to validate its template.\<close>

definition StartProcess :: "string \<Rightarrow> JobTemplate \<Rightarrow> frame" where
  "StartProcess jobid t =
     \<lparr>fr_point = AtValidate, fr_jobid = jobid, fr_t = t, fr_mtx = 0, fr_env = [],
      fr_pid = 0, fr_result = None\<rparr>"

text \<open>
  The window of a call: from the return of \<open>mtx.Lock()\<close> to the last \<open>mtx.Unlock()\<close>, that
  is while it saves, overlays and restores the environment.
\<close>

definition in_window :: "frame \<Rightarrow> bool" where
  "in_window f = (fr_point f \<in> {AtCurrentEnv, AtSetenv, AtStart, AtRestoreEnv, AtUnlock})"


section \<open>Concrete inputs\<close>

text \<open>The rounding on inputs whose results are float64 numbers already.\<close>

definition exact :: "real \<Rightarrow> float64" where
  "exact x = x"

text \<open>
  The conversion of a float that does not fit, as the amd64 instruction gives it: the smallest
  \<open>int64\<close>. No concrete input below reaches it.
\<close>

definition smallest_int64 :: "float64 \<Rightarrow> int64" where
  "smallest_int64 f = 2 ^ 63"

definition cluster :: "string \<Rightarrow> string \<Rightarrow> ClusterConfig" where
  "cluster name address = \<lparr>Name = name, Address = address, ProtocolVersion = ''v1''\<rparr>"

definition three_clusters :: Config where
  "three_clusters =
     \<lparr>Cluster = [cluster ''a'' ''http://a:8888'', cluster ''default'' ''http://b:8888'',
                 cluster ''c'' ''http://c:8888'']\<rparr>"

text \<open>Cluster \<open>a\<close> answers its load request with 0.25; the other clusters cannot be reached.\<close>

definition only_a_answers :: load_client where
  "only_a_answers req = (if req = ''http://a:8888/v1/drmsload'' then Decoded (1 / 4) else GetFailed)"

text \<open>The three clusters answer their load requests with 0.9, 0.1 and 0.5.\<close>

definition reported_loads :: load_client where
  "reported_loads req =
     (if req = ''http://a:8888/v1/drmsload'' then Decoded 0.9
      else if req = ''http://b:8888/v1/drmsload'' then Decoded 0.1
      else if req = ''http://c:8888/v1/drmsload'' then Decoded 0.5
      else GetFailed)"

text \<open>
  Peers whose answers are lists of numbers. The cluster at \<open>http://b:8888\<close> fails every
  request; the other two answer.
\<close>

definition b_is_down :: "string \<Rightarrow> string \<Rightarrow> string \<Rightarrow> (nat, nat, nat) Request" where
  "b_is_down certFile keyFile otp =
     \<lparr>GetJobs = (\<lambda>address state user.
         if address = ''http://a:8888/v1'' then Some [1, 2]
         else if address = ''http://c:8888/v1'' then Some [3] else None),
      GetJob = (\<lambda>req jobid.
         if req = ''http://b:8888v1'' \<and> jobid = ''42'' then Inr 7 else Inl (Error ''no such job'')),
      GetMachines = (\<lambda>address name.
         if address = ''http://a:8888/v1'' then Inr [10]
         else if address = ''http://c:8888/v1'' then Inr [30, 31] else Inl (Error ''timeout'')),
      GetQueues = (\<lambda>address name.
         if address = ''http://a:8888/v1'' then Inr [100]
         else if address = ''http://c:8888/v1'' then Inr [300] else Inl (Error ''timeout'')),
      GetJobCategories = (\<lambda>address session category.
         if address = ''http://a:8888/v1'' then [''batch'']
         else if address = ''http://c:8888/v1'' then [''gpu''] else [])\<rparr>"

text \<open>An address lookup that knows the three clusters.\<close>

definition lookup_address :: cluster_address where
  "lookup_address name =
     (if name = ''a'' then Inr ''http://a:8888/v1''
      else if name = ''default'' then Inr ''http://b:8888/v1''
      else if name = ''c'' then Inr ''http://c:8888/v1''
      else Inl (Error ''Cluster name not found in configuration''))"

text \<open>Two jobs submitted at the same time; only the first has an environment overlay.\<close>

definition two_calls :: process where
  "two_calls =
     \<lparr>environ = [(''PATH'', ''/bin'')], mutexes = [], children = [],
      frames =
        [StartProcess ''1'' \<lparr>RemoteCommand = ''sleep'', Args = [''1''], InputPath = '''',
            OutputPath = '''', ErrorPath = '''', JobEnvironment = [(''SECRET'', ''x'')]\<rparr>,
         StartProcess ''2'' \<lparr>RemoteCommand = ''env'', Args = [], InputPath = '''',
            OutputPath = '''', ErrorPath = '''', JobEnvironment = []\<rparr>]\<rparr>"

text \<open>The aggregator over the three clusters, as \<open>inceptionMode\<close> builds it.\<close>

definition aggregator :: "(nat, nat, nat) Inception" where
  "aggregator = NewInception b_is_down ''cert.pem'' ''key.pem'' ''secret'' three_clusters"

definition sleep_job :: JobTemplate where
  "sleep_job = \<lparr>RemoteCommand = ''sleep'', Args = [''0''], InputPath = '''', OutputPath = '''',
     ErrorPath = '''', JobEnvironment = []\<rparr>"


section \<open>Vocabulary of the statements\<close>

text \<open>The configured clusters that the guard on the own address lets through.\<close>

definition peers :: "('ji, 'm, 'q) Inception \<Rightarrow> ClusterConfig list" where
  "peers i = filter (\<lambda>c. Address c @ ''/'' \<noteq> inceptionAddress i) (Cluster (config i))"

text \<open>What a peer contributes to a merged result: its answer, or nothing when its request failed.\<close>

definition jobs_from :: "('ji, 'm, 'q) Inception \<Rightarrow> ClusterConfig \<Rightarrow> 'ji list" where
  "jobs_from i c =
     (case GetJobs (request i) (Address c @ ''/v1'') ''all'' '''' of None \<Rightarrow> [] | Some js \<Rightarrow> js)"

definition machines_from :: "('ji, 'm, 'q) Inception \<Rightarrow> string \<Rightarrow> 'm list" where
  "machines_from i address =
     (case GetMachines (request i) address ''all'' of Inl err \<Rightarrow> [] | Inr ms \<Rightarrow> ms)"

definition queues_from :: "('ji, 'm, 'q) Inception \<Rightarrow> string \<Rightarrow> 'q list" where
  "queues_from i address =
     (case GetQueues (request i) address ''all'' of Inl err \<Rightarrow> [] | Inr qs \<Rightarrow> qs)"

text \<open>What \<open>GetJobInfo\<close> keeps of the result of \<open>getJobFromCluster\<close>.\<close>

definition routed :: "('ji, 'm, 'q) Inception \<Rightarrow> string \<Rightarrow> string \<Rightarrow> call list \<times> 'ji option" where
  "routed i clustername jobid =
     (case getJobFromCluster i clustername jobid of (calls, job, err) \<Rightarrow> (calls, job))"


section \<open>Joining goroutines\<close>

lemma go_wait_invariant:
  assumes "\<And>g s. g \<in> set gs \<Longrightarrow> P s \<Longrightarrow> P (g s)" and "P s"
  shows "P (go_wait sched gs s)"
  using assms
proof (induction sched gs s rule: go_wait.induct)
  case (1 sched s)
  then show ?case by simp
next
  case (2 g gs s)
  then show ?case by simp
next
  case (3 k sched g gs s)
  define i where "i = k mod length (g # gs)"
  have i: "i < length (g # gs)" unfolding i_def by simp
  have sub: "set (take i (g # gs) @ drop (Suc i) (g # gs)) \<subseteq> set (g # gs)"
    by (auto dest: in_set_takeD in_set_dropD)
  have "P (((g # gs) ! i) s)"
    using 3(2)[of "(g # gs) ! i" s] 3(3) i nth_mem by blast
  moreover have "\<And>h t. h \<in> set (take i (g # gs) @ drop (Suc i) (g # gs)) \<Longrightarrow> P t \<Longrightarrow> P (h t)"
    using sub 3(2) by blast
  ultimately have "P (go_wait sched (take i (g # gs) @ drop (Suc i) (g # gs)) (((g # gs) ! i) s))"
    using 3(1)[OF i_def] by blast
  then show ?case by (simp add: i_def Let_def)
qed

text \<open>
  When every goroutine appends to a log and to a result, the join returns the appended parts
  in one order of completion: a permutation of the goroutines started.
\<close>

lemma go_wait_appends:
  assumes "gs = map (\<lambda>x s. (fst s @ [a x], snd s @ b x)) xs"
  shows "\<exists>order. mset order = mset xs \<and>
           go_wait sched gs s = (fst s @ map a order, snd s @ concat (map b order))"
  using assms
proof (induction sched gs s arbitrary: xs rule: go_wait.induct)
  case (1 sched s)
  then show ?case by simp
next
  case (2 g gs s)
  then obtain x xs' where xs: "xs = x # xs'" and g: "g = (\<lambda>s. (fst s @ [a x], snd s @ b x))"
    and gs: "gs = map (\<lambda>x s. (fst s @ [a x], snd s @ b x)) xs'" by (cases xs) auto
  from 2(1)[OF gs, of] obtain order where o: "mset order = mset xs'"
    "go_wait [] gs (g s) = (fst (g s) @ map a order, snd (g s) @ concat (map b order))" by blast
  have "go_wait [] (g # gs) s = (fst (g s) @ map a order, snd (g s) @ concat (map b order))"
    using o(2) by simp
  also have "\<dots> = (fst s @ map a (x # order), snd s @ concat (map b (x # order)))"
    by (simp add: g)
  finally show ?case using o(1) xs by (intro exI[of _ "x # order"]) simp
next
  case (3 k sched g gs s)
  let ?f = "\<lambda>x s. (fst s @ [a x], snd s @ b x)"
  define i where "i = k mod length (g # gs)"
  have len: "length xs = length (g # gs)" using arg_cong[OF 3(2), of length] by simp
  have i: "i < length xs" unfolding i_def len by simp
  define rest where "rest = take i xs @ drop (Suc i) xs"
  have r: "take i (g # gs) @ drop (Suc i) (g # gs) = map ?f rest"
    unfolding rest_def 3(2) by (simp add: take_map drop_map)
  have pick: "(g # gs) ! i = ?f (xs ! i)" unfolding 3(2) using i by simp
  from 3(1)[OF i_def r] obtain order where o: "mset order = mset rest"
    "go_wait sched (take i (g # gs) @ drop (Suc i) (g # gs)) (((g # gs) ! i) s) =
       (fst (((g # gs) ! i) s) @ map a order, snd (((g # gs) ! i) s) @ concat (map b order))"
    by blast
  have "mset xs = mset (take i xs @ xs ! i # drop (Suc i) xs)"
    by (rule arg_cong[where f = mset, OF id_take_nth_drop[OF i]])
  also have "\<dots> = mset (xs ! i # rest)" by (simp add: rest_def)
  finally have m: "mset (xs ! i # order) = mset xs" using o(1) by simp
  have "go_wait (k # sched) (g # gs) s =
          go_wait sched (take i (g # gs) @ drop (Suc i) (g # gs)) (((g # gs) ! i) s)"
    by (simp only: go_wait.simps Let_def i_def)
  also have "\<dots> = (fst (((g # gs) ! i) s) @ map a order,
                      snd (((g # gs) ! i) s) @ concat (map b order))"
    by (rule o(2))
  also have "\<dots> = (fst s @ map a (xs ! i # order), snd s @ concat (map b (xs ! i # order)))"
    by (simp add: pick)
  finally show ?case using m by blast
qed


section \<open>The scheduler\<close>

lemma length_getClusterLoad: "length (getClusterLoad lv index req client) = length lv"
  by (simp add: getClusterLoad_def split: load_reply.split)

lemma length_getAllLoadValues: "length (getAllLoadValues conf client sched) = length (Cluster conf)"
  unfolding getAllLoadValues_def
  by (rule go_wait_invariant) (auto simp: length_getClusterLoad)

text \<open>
  Only a reply that fails to decode is stored. When no reply is of that kind, whatever the
  peers answered, every slot keeps the zero it was made with.
\<close>

lemma getAllLoadValues_all_zero:
  assumes "\<And>req v. client req \<noteq> DecodeFailed v"
  shows "getAllLoadValues conf client sched = replicate (length (Cluster conf)) 0"
  unfolding getAllLoadValues_def
proof (rule go_wait_invariant)
  fix g and s :: "float64 list"
  assume "g \<in> set (map (\<lambda>i lv. getClusterLoad lv i (load_request (Cluster conf ! i)) client)
                     [0..<length (Cluster conf)])"
    and s: "s = replicate (length (Cluster conf)) 0"
  then obtain i where g: "g = (\<lambda>lv. getClusterLoad lv i (load_request (Cluster conf ! i)) client)"
    by auto
  show "g s = replicate (length (Cluster conf)) 0"
  proof (cases "client (load_request (Cluster conf ! i))")
    case GetFailed
    then show ?thesis by (simp add: g getClusterLoad_def s)
  next
    case (Decoded v)
    then show ?thesis by (simp add: g getClusterLoad_def s)
  next
    case (DecodeFailed v)
    with assms show ?thesis by blast
  qed
qed simp

text \<open>
  C1 (fails on the code). Cluster \<open>a\<close> answers its load request and the body decodes to 0.25;
  the other two clusters cannot be reached. The claim puts 0.25 into the slot of \<open>a\<close>.
  \<open>getAllLoadValues\<close> returns zero in every slot, under every schedule: \<open>getClusterLoad\<close>
  stores the value in the branch \<open>err != nil\<close> of \<open>Decode\<close> and only logs after a
  successful decode.
\<close>

theorem getAllLoadValues_loses_decoded_load:
  "only_a_answers (load_request (Cluster three_clusters ! 0)) = Decoded (1 / 4) \<and>
   getAllLoadValues three_clusters only_a_answers sched = [0, 0, 0]"
proof -
  have "\<And>req v. only_a_answers req \<noteq> DecodeFailed v" by (simp add: only_a_answers_def)
  then have "getAllLoadValues three_clusters only_a_answers sched =
               replicate (length (Cluster three_clusters)) 0"
    by (rule getAllLoadValues_all_zero)
  then show ?thesis
    by (simp add: three_clusters_def only_a_answers_def load_request_def cluster_def
        numeral_3_eq_3)
qed

subsection \<open>The cumulative weights\<close>

lemma length_likelyhood_loop: "length (likelyhood_loop rnd oor k vs lk) = length lk"
  by (induction vs arbitrary: k lk) auto

lemma likelyhood_loop_below: "j < k \<Longrightarrow> likelyhood_loop rnd oor k vs lk ! j = lk ! j"
  by (induction vs arbitrary: k lk) auto

lemma likelyhood_loop_step:
  "k + length vs \<le> length lk \<Longrightarrow> k \<le> j \<Longrightarrow> j < k + length vs \<Longrightarrow>
   likelyhood_loop rnd oor k vs lk ! j =
     (if j = 0 then 0 else likelyhood_loop rnd oor k vs lk ! (j - 1)) +
     int64_of_float oor (rnd (rnd (1 - vs ! (j - k)) * 10000))"
proof (induction vs arbitrary: k lk)
  case Nil
  then show ?case by simp
next
  case (Cons v vs)
  define lk' where "lk' = (if k \<ge> 1
        then lk[k := lk ! (k - 1) + int64_of_float oor (rnd (rnd (1.0 - v) * 10000))]
        else lk[k := int64_of_float oor (rnd (rnd (1.0 - v) * 10000))])"
  have unf: "likelyhood_loop rnd oor k (v # vs) lk = likelyhood_loop rnd oor (Suc k) vs lk'"
    by (simp add: lk'_def)
  have len: "length lk' = length lk" by (simp add: lk'_def)
  show ?case
  proof (cases "j = k")
    case True
    have a: "likelyhood_loop rnd oor (Suc k) vs lk' ! k = lk' ! k"
      by (simp add: likelyhood_loop_below)
    have b: "k \<ge> 1 \<Longrightarrow> likelyhood_loop rnd oor (Suc k) vs lk' ! (k - 1) = lk ! (k - 1)"
      by (simp add: likelyhood_loop_below lk'_def)
    have c: "k < length lk" using Cons.prems by simp
    show ?thesis unfolding unf using a b c True by (auto simp: lk'_def)
  next
    case False
    with Cons.prems have "Suc k \<le> j" "j < Suc k + length vs" "Suc k + length vs \<le> length lk'"
      by (auto simp: len)
    from Cons.IH[OF this(3,1,2)] False Cons.prems(2) show ?thesis
      unfolding unf by (auto simp: Suc_diff_Suc nth_Cons')
  qed
qed

lemma likelyhood_of_step:
  "k < length loads \<Longrightarrow>
   likelyhood_of rnd oor loads ! k =
     (if k = 0 then 0 else likelyhood_of rnd oor loads ! (k - 1)) +
     int64_of_float oor (rnd (rnd (1 - loads ! k) * 10000))"
  unfolding likelyhood_of_def
  using likelyhood_loop_step[where k = 0 and vs = loads and lk = "replicate (length loads) 0"
      and j = k and rnd = rnd and oor = oor] by simp

lemma length_likelyhood_of: "length (likelyhood_of rnd oor loads) = length loads"
  by (simp add: likelyhood_of_def length_likelyhood_loop)

subsection \<open>The choice\<close>

lemma select_loop_first:
  "\<exists>i<length vs. sint (vs ! i) > sint sel \<Longrightarrow>
   \<exists>i<length vs. select_loop k vs sel = int (k + i) \<and> sint (vs ! i) > sint sel \<and>
       (\<forall>j<i. \<not> sint (vs ! j) > sint sel)"
proof (induction vs arbitrary: k)
  case Nil
  then show ?case by simp
next
  case (Cons v vs)
  show ?case
  proof (cases "sint v > sint sel")
    case True
    then show ?thesis by (intro exI[of _ 0]) simp
  next
    case False
    from Cons.prems obtain i where i: "i < length (v # vs)" "sint ((v # vs) ! i) > sint sel" by blast
    with False have "i \<noteq> 0" by (cases i) auto
    then obtain i' where "i = Suc i'" by (cases i) auto
    with i have "\<exists>i<length vs. sint (vs ! i) > sint sel" by auto
    from Cons.IH[OF this, of "Suc k"] obtain m where m: "m < length vs"
      "select_loop (Suc k) vs sel = int (Suc k + m)" "sint (vs ! m) > sint sel"
      "\<forall>j<m. \<not> sint (vs ! j) > sint sel" by blast
    show ?thesis
    proof (intro exI[of _ "Suc m"] conjI allI impI)
      show "Suc m < length (v # vs)" using m by simp
      show "select_loop k (v # vs) sel = int (k + Suc m)" using False m by simp
      show "sint sel < sint ((v # vs) ! Suc m)" using m by simp
      fix j assume "j < Suc m"
      then show "\<not> sint sel < sint ((v # vs) ! j)" using m False by (cases j) auto
    qed
  qed
qed

lemma sint_word_of_int_small:
  "- (2 ^ 63) \<le> x \<Longrightarrow> x < 2 ^ 63 \<Longrightarrow> sint (word_of_int x :: 64 word) = x"
  by (simp add: sint_sbintrunc' signed_take_bit_int_eq_self)

lemma Int63n_range:
  assumes "Int63n r n = Inr s"
  shows "0 \<le> sint s \<and> sint s < sint n"
proof -
  from assms have pos: "0 < sint n" and s: "s = word_of_int (int r mod sint n)"
    by (auto simp: Int63n_def split: if_splits)
  have lo: "0 \<le> int r mod sint n" and hi: "int r mod sint n < sint n"
    using pos by simp_all
  have "sint n < 2 ^ 63" using sint_lt[of n] by simp
  with lo hi have "sint (word_of_int (int r mod sint n) :: 64 word) = int r mod sint n"
    by (intro sint_word_of_int_small) auto
  with s lo hi show ?thesis by simp
qed

lemma sint_pred:
  fixes a :: "64 word"
  assumes "0 < sint a"
  shows "sint (a - 1) = sint a - 1"
proof -
  have "a - 1 = word_of_int (sint a - 1)" by simp
  moreover have "sint a < 2 ^ 63" using sint_lt[of a] by simp
  ultimately show ?thesis using assms sint_word_of_int_small[of "sint a - 1"] by simp
qed

text \<open>
  C2 (as stated, fails on the code). The load \<open>16383 / 16384\<close> gives
  \<open>(1 - load) * 10000 = 0.6103515625\<close>, exactly also in float64. Rounded that is 1; the
  conversion \<open>int64(...)\<close> of the code gives the incremental weight 0.
\<close>

theorem likelyhood_increment_is_not_rounded:
  "sint (likelyhood_of exact smallest_int64 [0, 16383 / 16384] ! 1 - likelyhood_of exact smallest_int64 [0, 16383 / 16384] ! 0)
     \<noteq> round ((1 - [0, 16383 / 16384] ! 1) * 10000 :: real)"
  by (simp add: likelyhood_of_def int64_of_float_def round_def exact_def)

text \<open>
  C2 (amended). For every load vector, entry \<open>k\<close> of the cumulative array is the entry before
  it (zero for the first) plus \<open>(1 - load_k) * 10000\<close> converted by \<open>int64(...)\<close>, that is
  with the fraction cut off. When the vector is not empty, the total weight is positive and
  \<open>rand.Int63n\<close> has returned the draw \<open>selection\<close>, \<open>probabilisticSelection\<close> returns the
  first index whose cumulative weight is greater than the draw.
\<close>

theorem probabilisticSelection_weights_and_choice:
  "(\<forall>k<length loads. likelyhood_of rnd oor loads ! k =
       (if k = 0 then 0 else likelyhood_of rnd oor loads ! (k - 1)) +
       int64_of_float oor (rnd (rnd (1 - loads ! k) * 10000))) \<and>
   (loads \<noteq> [] \<longrightarrow> 0 < sint (likelyhood_of rnd oor loads ! (length loads - 1)) \<longrightarrow>
    Int63n r (likelyhood_of rnd oor loads ! (length loads - 1) - 1) = Inr selection \<longrightarrow>
    (\<exists>k<length loads. probabilisticSelection rnd oor r loads = Inr (int k) \<and>
        sint selection < sint (likelyhood_of rnd oor loads ! k) \<and>
        (\<forall>j<k. \<not> sint selection < sint (likelyhood_of rnd oor loads ! j))))"
proof (intro conjI allI impI)
  fix k assume "k < length loads"
  then show "likelyhood_of rnd oor loads ! k =
       (if k = 0 then 0 else likelyhood_of rnd oor loads ! (k - 1)) +
       int64_of_float oor (rnd (rnd (1 - loads ! k) * 10000))"
    by (rule likelyhood_of_step)
next
  let ?lk = "likelyhood_of rnd oor loads"
  let ?total = "?lk ! (length loads - 1)"
  assume ne: "loads \<noteq> []" and pos: "0 < sint ?total"
    and draw: "Int63n r (?total - 1) = Inr selection"
  from Int63n_range[OF draw] sint_pred[OF pos] have "sint selection < sint ?total" by simp
  moreover have "length loads - 1 < length ?lk" using ne by (simp add: length_likelyhood_of)
  ultimately have "\<exists>i<length ?lk. sint (?lk ! i) > sint selection" by blast
  from select_loop_first[OF this, of 0] obtain k where k: "k < length ?lk"
    "select_loop 0 ?lk selection = int k" "sint selection < sint (?lk ! k)"
    "\<forall>j<k. \<not> sint selection < sint (?lk ! j)" by auto
  have "probabilisticSelection rnd oor r loads = Inr (select_loop 0 ?lk selection)"
    using ne pos draw by (simp add: probabilisticSelection_def Let_def)
  with k show "\<exists>k<length loads. probabilisticSelection rnd oor r loads = Inr (int k) \<and>
        sint selection < sint (?lk ! k) \<and> (\<forall>j<k. \<not> sint selection < sint (?lk ! j))"
    by (auto simp: length_likelyhood_of)
qed

text \<open>
  The amended statement at the loads \<open>[0, 0, 0]\<close>: the weights are 10000, 20000 and 30000,
  the draw 19999 is below the second of them only, and index 1 is returned.
\<close>

theorem probabilisticSelection_weights_and_choice_witness:
  "[0, 0, 0] \<noteq> ([] :: float64 list) \<and>
   0 < sint (likelyhood_of exact smallest_int64 [0, 0, 0] ! (length [0, 0, 0 :: float64] - 1)) \<and>
   Int63n 19999 (likelyhood_of exact smallest_int64 [0, 0, 0] ! (length [0, 0, 0 :: float64] - 1) - 1) = Inr 19999 \<and>
   likelyhood_of exact smallest_int64 [0, 0, 0] = [10000, 20000, 30000] \<and>
   probabilisticSelection exact smallest_int64 19999 [0, 0, 0] = Inr 1"
  using probabilisticSelection_weights_and_choice [where loads = "[0, 0, 0]" and rnd = exact
      and oor = smallest_int64 and r = 19999 and selection = 19999]
  by (simp add: likelyhood_of_def int64_of_float_def Int63n_def probabilisticSelection_def
      exact_def)

text \<open>
  Without weight there is no draw: the selection returns \<open>-1\<close> and \<open>ProbSched.SelectCluster\<close>
  the name \<open>default\<close>.
\<close>

lemma probabilisticSelection_without_weight:
  "sint (likelyhood_of rnd oor loads ! (length loads - 1)) \<le> 0 \<Longrightarrow>
   probabilisticSelection rnd oor r loads = Inr (- 1)"
  by (simp add: probabilisticSelection_def)

lemma ProbSched_SelectCluster_default:
  "probabilisticSelection rnd oor r (getAllLoadValues conf client sched) = Inr (- 1) \<Longrightarrow>
   ProbSched_SelectCluster rnd oor conf client sched r = Inr ''default''"
  by (simp add: ProbSched_SelectCluster_def)

text \<open>
  C3 (fails on the code). Over \<open>[1, 1, 1]\<close> the total weight is 0 and the selection returns
  \<open>-1\<close>, as the claim says. The load \<open>8191 / 8192\<close> lies in \<open>[0, 1]\<close> and gives
  \<open>(1 - load) * 10000 = 1.220703125\<close>, exactly also in float64: the total weight is 1, the
  code calls \<open>rand.Int63n(1 - 1)\<close>, and that call panics.
\<close>

theorem probabilisticSelection_panics_at_total_weight_one:
  "probabilisticSelection exact smallest_int64 r [1, 1, 1] = Inr (- 1) \<and>
   sint (likelyhood_of exact smallest_int64 [8191 / 8192] ! 0) = 1 \<and>
   probabilisticSelection exact smallest_int64 r [8191 / 8192] = Inl (Panic ''invalid argument to Int63n'')"
  by (simp add: probabilisticSelection_def likelyhood_of_def int64_of_float_def Int63n_def
      exact_def)

subsection \<open>The least load\<close>

lemma minLoad_loop_none:
  "\<forall>v\<in>set vs. \<not> v < mn \<Longrightarrow> minLoad_loop k vs mn index = index"
  by (induction vs arbitrary: k) auto

lemma minLoad_loop_some:
  "\<exists>v\<in>set vs. v < mn \<Longrightarrow>
   \<exists>i<length vs. minLoad_loop k vs mn index = k + i \<and> vs ! i < mn \<and>
      (\<forall>v\<in>set vs. vs ! i \<le> v) \<and> (\<forall>j<i. vs ! i < vs ! j)"
proof (induction vs arbitrary: k mn index)
  case Nil
  then show ?case by simp
next
  case (Cons v vs)
  show ?case
  proof (cases "v < mn")
    case True
    show ?thesis
    proof (cases "\<exists>w\<in>set vs. w < v")
      case False
      then have "minLoad_loop (Suc k) vs v k = k" by (simp add: minLoad_loop_none)
      with True False show ?thesis
        by (intro exI[of _ 0]) (auto simp: not_less)
    next
      case ex: True
      from Cons.IH[OF ex, of "Suc k" k] obtain i where i: "i < length vs"
        "minLoad_loop (Suc k) vs v k = Suc k + i" "vs ! i < v"
        "\<forall>w\<in>set vs. vs ! i \<le> w" "\<forall>j<i. vs ! i < vs ! j" by blast
      show ?thesis
      proof (intro exI[of _ "Suc i"] conjI allI impI)
        show "Suc i < length (v # vs)" using i by simp
        show "minLoad_loop k (v # vs) mn index = k + Suc i" using True i by simp
        show "(v # vs) ! Suc i < mn" using True i by simp
        show "\<forall>w\<in>set (v # vs). (v # vs) ! Suc i \<le> w" using i by auto
        fix j assume "j < Suc i"
        then show "(v # vs) ! Suc i < (v # vs) ! j" using i by (cases j) auto
      qed
    qed
  next
    case False
    with Cons.prems have ex: "\<exists>w\<in>set vs. w < mn" by auto
    from Cons.IH[OF ex, of "Suc k" index] obtain i where i: "i < length vs"
      "minLoad_loop (Suc k) vs mn index = Suc k + i" "vs ! i < mn"
      "\<forall>w\<in>set vs. vs ! i \<le> w" "\<forall>j<i. vs ! i < vs ! j" by blast
    show ?thesis
    proof (intro exI[of _ "Suc i"] conjI allI impI)
      show "Suc i < length (v # vs)" using i by simp
      show "minLoad_loop k (v # vs) mn index = k + Suc i" using False i by simp
      show "(v # vs) ! Suc i < mn" using i by simp
      show "\<forall>w\<in>set (v # vs). (v # vs) ! Suc i \<le> w" using i False by auto
      fix j assume "j < Suc i"
      then show "(v # vs) ! Suc i < (v # vs) ! j" using i False by (cases j) auto
    qed
  qed
qed

lemma minLoad_less_length: "load \<noteq> [] \<Longrightarrow> minLoad load < length load"
proof (cases "\<exists>v\<in>set load. v < MaxFloat64")
  case True
  from minLoad_loop_some[OF True, of 0 0] show ?thesis by (auto simp: minLoad_def)
next
  case False
  assume "load \<noteq> []"
  with False show ?thesis by (simp add: minLoad_def minLoad_loop_none)
qed

text \<open>
  On a vector of float64 numbers none of which exceeds \<open>math.MaxFloat64\<close>, the start value of
  the loop, \<open>minLoad\<close> returns the first index that holds the minimum.
\<close>

lemma minLoad_first_min:
  assumes "load \<noteq> []" and "\<forall>v\<in>set load. v \<le> MaxFloat64"
  shows "load ! minLoad load = Min (set load) \<and> (\<forall>j<minLoad load. load ! j \<noteq> Min (set load))"
proof (cases "\<exists>v\<in>set load. v < MaxFloat64")
  case True
  from minLoad_loop_some[OF True, of 0 0] obtain i where i: "i < length load"
    "minLoad load = i" "\<forall>v\<in>set load. load ! i \<le> v" "\<forall>j<i. load ! i < load ! j"
    by (auto simp: minLoad_def)
  have "Min (set load) = load ! i"
    using i by (intro Min_eqI) auto
  with i show ?thesis by auto
next
  case False
  with assms have all: "\<forall>v\<in>set load. v = MaxFloat64" by fastforce
  have m0: "minLoad load = 0" using False by (simp add: minLoad_def minLoad_loop_none)
  have l0: "load ! 0 = MaxFloat64" using all assms(1) by (cases load) auto
  have "MaxFloat64 \<in> set load" using l0 assms(1) nth_mem[of 0 load] by auto
  then have "Min (set load) = MaxFloat64"
    using all by (intro Min_eqI) auto
  then show ?thesis using m0 l0 by simp
qed

text \<open>
  Whatever the peers answer, as long as no answer fails to decode, \<open>getAllLoadValues\<close>
  returns zeros only, \<open>minLoad\<close> finds the first of them, and \<open>LoadBasedSched.SelectCluster\<close>
  returns the name of the first configured cluster.
\<close>

lemma minLoad_zeros: "minLoad (replicate (Suc n) 0) = 0"
  by (simp add: minLoad_def MaxFloat64_def minLoad_loop_none)

lemma LoadBasedSched_SelectCluster_first_cluster:
  assumes "\<And>req v. client req \<noteq> DecodeFailed v" and "Cluster conf \<noteq> []"
  shows "LoadBasedSched_SelectCluster conf client sched = Inr (Name (Cluster conf ! 0))"
proof -
  obtain n where n: "length (Cluster conf) = Suc n"
    using assms(2) by (cases "Cluster conf") auto
  have "getAllLoadValues conf client sched = replicate (Suc n) 0"
    using getAllLoadValues_all_zero[where client = client and conf = conf and sched = sched,
        OF assms(1)] n by simp
  then have "minLoad (getAllLoadValues conf client sched) = 0"
    by (simp only: minLoad_zeros)
  then show ?thesis
    by (simp add: LoadBasedSched_SelectCluster_def cluster_at_def n Let_def)
qed

text \<open>
  C4 (fails on the code). The three clusters answer their load requests with 0.9, 0.1 and
  0.5. On the vector \<open>[0.9, 0.1, 0.5]\<close> the function \<open>minLoad\<close> returns 1, the index the claim
  names, and the cluster at index 1 is \<open>default\<close>. But \<open>LoadBasedSched.SelectCluster\<close> never
  sees that vector: under every schedule \<open>getAllLoadValues\<close> returns \<open>[0, 0, 0]\<close>, since
  \<open>getClusterLoad\<close> stores no decoded load, and the cluster selected is the one at index 0.
\<close>

theorem LoadBasedSched_SelectCluster_misses_least_load:
  "map (\<lambda>c. reported_loads (load_request c)) (Cluster three_clusters) =
     [Decoded 0.9, Decoded 0.1, Decoded 0.5] \<and>
   minLoad [0.9, 0.1, 0.5] = 1 \<and>
   Name (Cluster three_clusters ! 1) = ''default'' \<and>
   getAllLoadValues three_clusters reported_loads sched = [0, 0, 0] \<and>
   LoadBasedSched_SelectCluster three_clusters reported_loads sched = Inr ''a''"
proof -
  have nodf: "\<And>req v. reported_loads req \<noteq> DecodeFailed v"
    by (simp add: reported_loads_def)
  have ne: "Cluster three_clusters \<noteq> []" by (simp add: three_clusters_def)
  have "map (\<lambda>c. reported_loads (load_request c)) (Cluster three_clusters) =
     [Decoded 0.9, Decoded 0.1, Decoded 0.5]"
    by (simp add: three_clusters_def cluster_def load_request_def reported_loads_def)
  moreover have "minLoad [0.9, 0.1, 0.5] = 1" by (simp add: minLoad_def MaxFloat64_def)
  moreover have "Name (Cluster three_clusters ! 1) = ''default''"
    by (simp add: three_clusters_def cluster_def)
  moreover have "getAllLoadValues three_clusters reported_loads sched = [0, 0, 0]"
    using getAllLoadValues_all_zero[where client = reported_loads and conf = three_clusters
        and sched = sched, OF nodf]
    by (simp add: three_clusters_def numeral_3_eq_3)
  moreover have "LoadBasedSched_SelectCluster three_clusters reported_loads sched = Inr ''a''"
    using LoadBasedSched_SelectCluster_first_cluster[where client = reported_loads
        and conf = three_clusters and sched = sched, OF nodf ne]
    by (simp add: three_clusters_def cluster_def)
  ultimately show ?thesis by blast
qed


section \<open>The aggregator\<close>

subsection \<open>The fan-out of \<open>GetJobInfosByFilter\<close>\<close>

lemma GetJobInfosByFilter_loop_map:
  "GetJobInfosByFilter_loop i cs =
     map (\<lambda>c jip. (fst jip @ [CallGetJobs (Address c @ ''/v1'') ''all'' ''''],
                    snd jip @ jobs_from i c))
         (filter (\<lambda>c. Address c @ ''/'' \<noteq> inceptionAddress i) cs)"
  by (induction cs) (auto simp: requestJobInfos_def jobs_from_def Let_def split: option.split)

lemma GetJobInfosByFilter_order:
  "\<exists>order. mset order = mset (peers i) \<and>
     GetJobInfosByFilter i sched filtered filter' =
       (map (\<lambda>c. CallGetJobs (Address c @ ''/v1'') ''all'' '''') order,
        concat (map (jobs_from i) order))"
proof -
  from go_wait_appends[OF GetJobInfosByFilter_loop_map[of i "Cluster (config i)"],
      of sched "([], [])"]
  show ?thesis by (simp add: GetJobInfosByFilter_def peers_def)
qed

lemma GetJobInfosByFilter_calls:
  "mset (fst (GetJobInfosByFilter i sched filtered filter')) =
     mset (map (\<lambda>c. CallGetJobs (Address c @ ''/v1'') ''all'' '''') (peers i))"
proof -
  from GetJobInfosByFilter_order[of i sched filtered filter'] obtain order
    where o: "mset order = mset (peers i)"
      "GetJobInfosByFilter i sched filtered filter' =
         (map (\<lambda>c. CallGetJobs (Address c @ ''/v1'') ''all'' '''') order,
          concat (map (jobs_from i) order))" by blast
  have "mset (map (\<lambda>c. CallGetJobs (Address c @ ''/v1'') ''all'' '''') order) =
        image_mset (\<lambda>c. CallGetJobs (Address c @ ''/v1'') ''all'' '''') (mset order)"
    by simp
  then show ?thesis using o by simp
qed

lemma peers_NewInception: "peers (NewInception NewRequest certFile keyFile otp conf) = Cluster conf"
  by (simp add: peers_def NewInception_def)

subsection \<open>The sequential reads\<close>

lemma GetAllMachines_loop_completes:
  assumes "\<forall>c\<in>set (filter (\<lambda>c. Address c @ ''/'' \<noteq> inceptionAddress i) cs).
             GetClusterAddress (Name c) = Inr (addr c)"
  shows "GetAllMachines_loop i GetClusterAddress cs (calls, acc) =
           (calls @ map (\<lambda>c. CallGetMachines (addr c) ''all'')
                        (filter (\<lambda>c. Address c @ ''/'' \<noteq> inceptionAddress i) cs),
            Inr (acc @ concat (map (\<lambda>c. machines_from i (addr c))
                        (filter (\<lambda>c. Address c @ ''/'' \<noteq> inceptionAddress i) cs)), None))"
  using assms
proof (induction cs arbitrary: calls acc)
  case Nil
  then show ?case by simp
next
  case (Cons c cs)
  show ?case
  proof (cases "Address c @ ''/'' = inceptionAddress i")
    case True
    with Cons show ?thesis by simp
  next
    case False
    with Cons.prems have a: "GetClusterAddress (Name c) = Inr (addr c)" by simp
    from Cons.prems have rest: "\<forall>c\<in>set (filter (\<lambda>c. Address c @ ''/'' \<noteq> inceptionAddress i) cs).
             GetClusterAddress (Name c) = Inr (addr c)" by simp
    show ?thesis
      using False a Cons.IH[OF rest]
      by (cases "GetMachines (request i) (addr c) ''all''") (simp_all add: machines_from_def)
  qed
qed

lemma GetAllQueues_loop_completes:
  assumes "\<forall>c\<in>set (filter (\<lambda>c. Address c @ ''/'' \<noteq> inceptionAddress i) cs).
             GetClusterAddress (Name c) = Inr (addr c)"
  shows "GetAllQueues_loop i GetClusterAddress cs (calls, acc) =
           (calls @ map (\<lambda>c. CallGetQueues (addr c) ''all'')
                        (filter (\<lambda>c. Address c @ ''/'' \<noteq> inceptionAddress i) cs),
            Inr (acc @ concat (map (\<lambda>c. queues_from i (addr c))
                        (filter (\<lambda>c. Address c @ ''/'' \<noteq> inceptionAddress i) cs)), None))"
  using assms
proof (induction cs arbitrary: calls acc)
  case Nil
  then show ?case by simp
next
  case (Cons c cs)
  show ?case
  proof (cases "Address c @ ''/'' = inceptionAddress i")
    case True
    with Cons show ?thesis by simp
  next
    case False
    with Cons.prems have a: "GetClusterAddress (Name c) = Inr (addr c)" by simp
    from Cons.prems have rest: "\<forall>c\<in>set (filter (\<lambda>c. Address c @ ''/'' \<noteq> inceptionAddress i) cs).
             GetClusterAddress (Name c) = Inr (addr c)" by simp
    show ?thesis
      using False a Cons.IH[OF rest]
      by (cases "GetQueues (request i) (addr c) ''all''") (simp_all add: queues_from_def)
  qed
qed

lemma GetAllCategories_loop_completes:
  assumes "\<forall>c\<in>set (filter (\<lambda>c. Address c @ ''/'' \<noteq> inceptionAddress i) cs).
             GetClusterAddress (Name c) = Inr (addr c)"
  shows "GetAllCategories_loop i GetClusterAddress cs (calls, acc) =
           (calls @ map (\<lambda>c. CallGetJobCategories (addr c) ''ubercluster'' ''all'')
                        (filter (\<lambda>c. Address c @ ''/'' \<noteq> inceptionAddress i) cs),
            Inr (acc @ concat (map (\<lambda>c. GetJobCategories (request i) (addr c) ''ubercluster'' ''all'')
                        (filter (\<lambda>c. Address c @ ''/'' \<noteq> inceptionAddress i) cs)), None))"
  using assms
proof (induction cs arbitrary: calls acc)
  case Nil
  then show ?case by simp
next
  case (Cons c cs)
  show ?case
  proof (cases "Address c @ ''/'' = inceptionAddress i")
    case True
    with Cons show ?thesis by simp
  next
    case False
    with Cons.prems have a: "GetClusterAddress (Name c) = Inr (addr c)" by simp
    from Cons.prems have rest: "\<forall>c\<in>set (filter (\<lambda>c. Address c @ ''/'' \<noteq> inceptionAddress i) cs).
             GetClusterAddress (Name c) = Inr (addr c)" by simp
    show ?thesis
      using False a Cons.IH[OF rest] by simp
  qed
qed

text \<open>
  C5. Take any aggregator, any peers and any answers of theirs, and let the address lookup
  \<open>GetClusterAddress\<close> succeed for the clusters that are asked (it is a lookup in the
  configuration, not a request to a peer). Then each of the four aggregate reads returns
  normally, without panic and without error, and its result is the concatenation of what the
  peers answered, a peer whose request failed contributing nothing: for
  \<open>GetJobInfosByFilter\<close> in the order in which the goroutines complete, for the other three
  in the order of the configuration.
\<close>

theorem aggregate_reads_skip_failed_peers:
  assumes "\<forall>c\<in>set (peers i). GetClusterAddress (Name c) = Inr (addr c)"
  shows "(\<exists>order. mset order = mset (peers i) \<and>
            snd (GetJobInfosByFilter i sched filtered filter') = concat (map (jobs_from i) order)) \<and>
         snd (GetAllMachines i GetClusterAddress machines) =
            Inr (concat (map (\<lambda>c. machines_from i (addr c)) (peers i)), None) \<and>
         snd (GetAllQueues i GetClusterAddress queues) =
            Inr (concat (map (\<lambda>c. queues_from i (addr c)) (peers i)), None) \<and>
         snd (GetAllCategories i GetClusterAddress) =
            Inr (concat (map (\<lambda>c. GetJobCategories (request i) (addr c) ''ubercluster'' ''all'')
                   (peers i)), None)"
proof (intro conjI)
  from GetJobInfosByFilter_order[of i sched filtered filter']
  show "\<exists>order. mset order = mset (peers i) \<and>
            snd (GetJobInfosByFilter i sched filtered filter') = concat (map (jobs_from i) order)"
    by auto
next
  show "snd (GetAllMachines i GetClusterAddress machines) =
            Inr (concat (map (\<lambda>c. machines_from i (addr c)) (peers i)), None)"
    using GetAllMachines_loop_completes[of i "Cluster (config i)" GetClusterAddress addr "[]" "[]"]
      assms
    by (simp add: GetAllMachines_def peers_def)
next
  show "snd (GetAllQueues i GetClusterAddress queues) =
            Inr (concat (map (\<lambda>c. queues_from i (addr c)) (peers i)), None)"
    using GetAllQueues_loop_completes[of i "Cluster (config i)" GetClusterAddress addr "[]" "[]"]
      assms
    by (simp add: GetAllQueues_def peers_def)
next
  show "snd (GetAllCategories i GetClusterAddress) =
            Inr (concat (map (\<lambda>c. GetJobCategories (request i) (addr c) ''ubercluster'' ''all'')
                   (peers i)), None)"
    using GetAllCategories_loop_completes[of i "Cluster (config i)" GetClusterAddress addr "[]" "[]"]
      assms
    by (simp add: GetAllCategories_def peers_def)
qed

lemma peers_aggregator: "peers aggregator = Cluster three_clusters"
  by (simp add: aggregator_def peers_NewInception)

lemma request_aggregator: "request aggregator = b_is_down ''cert.pem'' ''key.pem'' ''secret''"
  by (simp add: aggregator_def NewInception_def)

text \<open>
  Three peers, the second of which fails every request: the merged results hold the answers
  of the first and the third.
\<close>

theorem aggregate_reads_skip_failed_peers_witness:
  "list_all (\<lambda>c. lookup_address (Name c) = Inr (Address c @ ''/v1'')) (peers aggregator) \<and>
   GetJobs (request aggregator) ''http://b:8888/v1'' ''all'' '''' = None \<and>
   snd (GetJobInfosByFilter aggregator [] False 0) = [1, 2, 3] \<and>
   snd (GetAllMachines aggregator lookup_address []) = Inr ([10, 30, 31], None) \<and>
   snd (GetAllQueues aggregator lookup_address []) = Inr ([100, 300], None) \<and>
   snd (GetAllCategories aggregator lookup_address) = Inr ([''batch'', ''gpu''], None)"
proof -
  have h: "\<forall>c\<in>set (peers aggregator). lookup_address (Name c) = Inr (Address c @ ''/v1'')"
    by (simp add: peers_aggregator three_clusters_def cluster_def lookup_address_def)
  have j: "snd (GetJobInfosByFilter aggregator [] False 0) = [1, 2, 3]"
    by (simp add: GetJobInfosByFilter_def aggregator_def NewInception_def three_clusters_def
        cluster_def requestJobInfos_def b_is_down_def)
  from aggregate_reads_skip_failed_peers [OF h, of "[]" False 0 "[]" "[]"] h j
  show ?thesis
    by (simp add: peers_aggregator request_aggregator three_clusters_def cluster_def
        machines_from_def queues_from_def b_is_down_def list_all_iff)
qed

text \<open>
  C6 (as stated, fails on the code). Asked to run a job, the aggregator returns the empty job
  identifier together with a nil error.
\<close>

theorem RunJob_returns_empty_id_and_no_error:
  "fst (RunJob aggregator sleep_job) = '''' \<and> snd (RunJob aggregator sleep_job) = None"
  by (simp add: RunJob_def)

text \<open>
  C6 (amended). On the aggregator \<open>RunJob\<close> and \<open>JobOperation\<close> are placeholders: for every
  input they return the empty string together with a nil error.
\<close>

theorem RunJob_and_JobOperation_are_placeholders:
  "RunJob i template = ('''', None) \<and> JobOperation i jobsessionname operation jobid = ('''', None)"
  by (simp add: RunJob_def JobOperation_def)

subsection \<open>Routing by job identifier\<close>

lemma Split_not_Nil: "Split s sep \<noteq> []"
  by (induction s) (auto split: list.split)

lemma Split_without_sep: "sep \<notin> set s \<Longrightarrow> Split s sep = [s]"
  by (induction s) auto

lemma Split_at_first_sep: "sep \<notin> set a \<Longrightarrow> Split (a @ sep # b) sep = a # Split b sep"
  by (induction a) auto

lemma length_Split: "length (Split s sep) = Suc (count_list s sep)"
proof (induction s)
  case Nil
  then show ?case by simp
next
  case (Cons c cs)
  obtain w ws where "Split cs sep = w # ws"
    using Split_not_Nil[of cs sep] by (cases "Split cs sep") auto
  with Cons show ?case by auto
qed

lemma getJobFromCluster_loop_find:
  "getJobFromCluster_loop cs clustername av =
     (case find (\<lambda>c. Name c = clustername) cs of
        None \<Rightarrow> av | Some c \<Rightarrow> (Address c, ProtocolVersion c))"
  by (induction cs) auto

text \<open>
  C7 (as stated, fails on the code). For the identifier \<open>42@a@b\<close> the caller of
  \<open>GetJobInfo\<close> gets nil and nothing else, which is exactly what it gets for the well-formed
  identifier \<open>42@nowhere\<close> that names a cluster the configuration does not have: the function
  returns a pointer only, so no error, of whatever kind, reaches the caller.
\<close>

theorem GetJobInfo_malformed_is_plain_nil:
  "GetJobInfo aggregator ''42@a@b'' = ([], None) \<and>
   GetJobInfo aggregator ''42@nowhere'' = ([], None)"
  by (simp add: GetJobInfo_def Contains_def getJobFromCluster_def aggregator_def
      NewInception_def three_clusters_def cluster_def)

text \<open>
  C7 (amended). An identifier without \<open>@\<close> is looked up in the cluster named \<open>default\<close>;
  an identifier \<open>id@cluster\<close> with exactly one \<open>@\<close> is looked up as \<open>id\<close> in the cluster
  named by the suffix; an identifier with two or more \<open>@\<close> sends no request and returns
  nil. A lookup takes the first configured cluster of that name: if its address is not empty,
  exactly one request for the job goes to its address followed by its protocol version;
  if there is no such cluster, no request is sent and nil is returned.
\<close>

theorem GetJobInfo_routes_by_suffix:
  "(count_list plain CHR ''@'' = 0 \<longrightarrow> GetJobInfo i plain = routed i ''default'' plain) \<and>
   (CHR ''@'' \<notin> set jid \<and> CHR ''@'' \<notin> set cl \<longrightarrow>
      GetJobInfo i (jid @ ''@'' @ cl) = routed i cl jid) \<and>
   (2 \<le> count_list malformed CHR ''@'' \<longrightarrow> GetJobInfo i malformed = ([], None)) \<and>
   (find (\<lambda>c. Name c = cl) (Cluster (config i)) = Some c \<and> Address c \<noteq> '''' \<longrightarrow>
      routed i cl jid =
        ([CallGetJob (Address c @ ProtocolVersion c) jid],
         case GetJob (request i) (Address c @ ProtocolVersion c) jid of
           Inl err \<Rightarrow> None | Inr job \<Rightarrow> Some job)) \<and>
   (find (\<lambda>c. Name c = unknown) (Cluster (config i)) = None \<longrightarrow>
      routed i unknown jid = ([], None))"
proof (intro conjI impI)
  assume "count_list plain CHR ''@'' = 0"
  then have "CHR ''@'' \<notin> set plain" by (simp add: count_list_0_iff)
  then show "GetJobInfo i plain = routed i ''default'' plain"
    by (simp add: GetJobInfo_def Contains_def routed_def)
next
  assume a: "CHR ''@'' \<notin> set jid \<and> CHR ''@'' \<notin> set cl"
  then have "Split (jid @ ''@'' @ cl) CHR ''@'' = [jid, cl]"
    by (simp add: Split_at_first_sep Split_without_sep)
  then show "GetJobInfo i (jid @ ''@'' @ cl) = routed i cl jid"
    by (simp add: GetJobInfo_def Contains_def routed_def)
next
  assume m: "2 \<le> count_list malformed CHR ''@''"
  then have "count_list malformed CHR ''@'' \<noteq> 0" by simp
  then have "CHR ''@'' \<in> set malformed" by (simp add: count_list_0_iff)
  moreover have "length (Split malformed CHR ''@'') \<noteq> 2" using m by (simp add: length_Split)
  ultimately show "GetJobInfo i malformed = ([], None)"
    by (simp add: GetJobInfo_def Contains_def)
next
  assume "find (\<lambda>c. Name c = cl) (Cluster (config i)) = Some c \<and> Address c \<noteq> ''''"
  then show "routed i cl jid =
        ([CallGetJob (Address c @ ProtocolVersion c) jid],
         case GetJob (request i) (Address c @ ProtocolVersion c) jid of
           Inl err \<Rightarrow> None | Inr job \<Rightarrow> Some job)"
    by (simp add: routed_def getJobFromCluster_def getJobFromCluster_loop_find split: sum.split)
next
  assume "find (\<lambda>c. Name c = unknown) (Cluster (config i)) = None"
  then show "routed i unknown jid = ([], None)"
    by (simp add: routed_def getJobFromCluster_def getJobFromCluster_loop_find)
qed

theorem GetJobInfo_routes_by_suffix_witness:
  "count_list ''42'' CHR ''@'' = 0 \<and> CHR ''@'' \<notin> set ''42'' \<and> CHR ''@'' \<notin> set ''default'' \<and>
   2 \<le> count_list ''42@a@b'' CHR ''@'' \<and>
   find (\<lambda>c. Name c = ''default'') (Cluster (config aggregator)) =
     Some (cluster ''default'' ''http://b:8888'') \<and>
   Address (cluster ''default'' ''http://b:8888'') \<noteq> '''' \<and>
   find (\<lambda>c. Name c = ''nowhere'') (Cluster (config aggregator)) = None \<and>
   GetJobInfo aggregator ''42'' = ([CallGetJob ''http://b:8888v1'' ''42''], Some 7) \<and>
   GetJobInfo aggregator ''42@default'' = ([CallGetJob ''http://b:8888v1'' ''42''], Some 7) \<and>
   GetJobInfo aggregator ''42@a@b'' = ([], None) \<and>
   routed aggregator ''nowhere'' ''42'' = ([], None)"
  using GetJobInfo_routes_by_suffix [where plain = "''42''" and jid = "''42''"
      and cl = "''default''" and i = aggregator and malformed = "''42@a@b''"
      and c = "cluster ''default'' ''http://b:8888''" and unknown = "''nowhere''"]
  by (simp add: aggregator_def NewInception_def three_clusters_def cluster_def b_is_down_def)

text \<open>
  C8 (fails on the code). The aggregator is started by \<open>inceptionMode\<close> to listen at
  \<open>http://a:8888\<close>, and the first configured cluster has this very address. Under every
  schedule the fan-out of \<open>GetJobInfosByFilter\<close> sends a request to it:
  \<open>NewInception\<close> never sets \<open>inceptionAddress\<close>, and the guard compares with that field.
\<close>

theorem GetJobInfosByFilter_requests_own_address:
  "fst (inceptionMode b_is_down three_clusters ''cert.pem'' ''key.pem'' ''secret'' ''http://a:8888'')
     = Address (Cluster three_clusters ! 0) \<and>
   CallGetJobs ''http://a:8888/v1'' ''all'' '''' \<in>
     set (fst (GetJobInfosByFilter
       (snd (inceptionMode b_is_down three_clusters ''cert.pem'' ''key.pem'' ''secret''
               ''http://a:8888''))
       sched filtered filter'))"
proof -
  let ?i = "NewInception b_is_down ''cert.pem'' ''key.pem'' ''secret'' three_clusters"
  have i: "inceptionMode b_is_down three_clusters ''cert.pem'' ''key.pem'' ''secret''
             ''http://a:8888'' = (''http://a:8888'', ?i)"
    by (simp add: inceptionMode_def Let_def)
  have "set (fst (GetJobInfosByFilter ?i sched filtered filter')) =
        set (map (\<lambda>c. CallGetJobs (Address c @ ''/v1'') ''all'' '''') (peers ?i))"
    by (rule mset_eq_setD[OF GetJobInfosByFilter_calls])
  also have "\<dots> = set (map (\<lambda>c. CallGetJobs (Address c @ ''/v1'') ''all'' '''')
                        (Cluster three_clusters))"
    by (simp only: peers_NewInception)
  finally have "CallGetJobs ''http://a:8888/v1'' ''all'' '''' \<in>
      set (fst (GetJobInfosByFilter ?i sched filtered filter'))"
    by (simp add: three_clusters_def cluster_def)
  moreover have "Address (Cluster three_clusters ! 0) = ''http://a:8888''"
    by (simp add: three_clusters_def cluster_def)
  ultimately show ?thesis by (simp only: i fst_conv snd_conv)
qed

text \<open>
  C10. Whatever the two arguments are, \<open>GetJobInfosByFilter\<close> over the same aggregator,
  peers and schedule sends the same requests and returns the same result. The requests are
  one \<open>GetJobs\<close> with state \<open>all\<close> and empty user to every cluster that the guard lets
  through, and that is every configured cluster for an aggregator built by \<open>NewInception\<close>.
\<close>

theorem GetJobInfosByFilter_ignores_its_arguments:
  "GetJobInfosByFilter i sched filtered1 filter1 = GetJobInfosByFilter i sched filtered2 filter2 \<and>
   mset (fst (GetJobInfosByFilter i sched filtered1 filter1)) =
     mset (map (\<lambda>c. CallGetJobs (Address c @ ''/v1'') ''all'' '''') (peers i)) \<and>
   mset (fst (GetJobInfosByFilter (NewInception NewRequest certFile keyFile otp conf)
                sched filtered1 filter1)) =
     mset (map (\<lambda>c. CallGetJobs (Address c @ ''/v1'') ''all'' '''') (Cluster conf))"
proof (intro conjI)
  show "GetJobInfosByFilter i sched filtered1 filter1 = GetJobInfosByFilter i sched filtered2 filter2"
    by (simp add: GetJobInfosByFilter_def)
  show "mset (fst (GetJobInfosByFilter i sched filtered1 filter1)) =
     mset (map (\<lambda>c. CallGetJobs (Address c @ ''/v1'') ''all'' '''') (peers i))"
    by (rule GetJobInfosByFilter_calls)
  show "mset (fst (GetJobInfosByFilter (NewInception NewRequest certFile keyFile otp conf)
                sched filtered1 filter1)) =
     mset (map (\<lambda>c. CallGetJobs (Address c @ ''/v1'') ''all'' '''') (Cluster conf))"
    using GetJobInfosByFilter_calls[of "NewInception NewRequest certFile keyFile otp conf"
        sched filtered1 filter1]
    by (simp add: peers_NewInception)
qed


section \<open>The process tracker\<close>

text \<open>
  C9 (fails on the code). Two calls of \<open>StartProcess\<close> run at the same time. The first takes
  five steps, up to its loop of \<open>os.Setenv\<close>; then the second takes six, up to
  \<open>cmd.Start()\<close>. Each call locks the mutex it declared itself, so the lock of the first
  does not hold the second back: both are inside their windows at once, the two mutexes are
  different, and the child of job 2 is started with the variable \<open>SECRET\<close> that only the
  template of job 1 sets.
\<close>

theorem StartProcess_windows_overlap:
  "in_window (frames (run (\<lambda>t. (True, Error '''')) (\<lambda>t. None)
                [0, 0, 0, 0, 0, 1, 1, 1, 1, 1, 1] two_calls) ! 0) \<and>
   in_window (frames (run (\<lambda>t. (True, Error '''')) (\<lambda>t. None)
                [0, 0, 0, 0, 0, 1, 1, 1, 1, 1, 1] two_calls) ! 1) \<and>
   fr_mtx (frames (run (\<lambda>t. (True, Error '''')) (\<lambda>t. None)
                [0, 0, 0, 0, 0, 1, 1, 1, 1, 1, 1] two_calls) ! 0) \<noteq>
   fr_mtx (frames (run (\<lambda>t. (True, Error '''')) (\<lambda>t. None)
                [0, 0, 0, 0, 0, 1, 1, 1, 1, 1, 1] two_calls) ! 1) \<and>
   children (run (\<lambda>t. (True, Error '''')) (\<lambda>t. None)
                [0, 0, 0, 0, 0, 1, 1, 1, 1, 1, 1] two_calls) =
     [(''2'', [(''PATH'', ''/bin''), (''SECRET'', ''x'')])]"
  by (simp add: run_def step_def two_calls_def StartProcess_def in_window_def currentEnv_def
      Environ_def Getenv_def Setenv_def Let_def)

end
